theory Spec2Isabelle
  imports Complex_Main "HOL-Library.Word"
begin

section \<open>Scalars\<close>

text \<open>
  The C++ scalars \<^verbatim>\<open>double\<close> and \<^verbatim>\<open>float\<close> are IEEE 754 binary interchange
  formats. A value is kept as its bit pattern: a sign bit, a biased exponent of
  \<open>'e\<close> bits and a fraction of \<open>'f\<close> bits. Only classification (finite, infinite,
  NaN) and the real value of a finite pattern are needed here; no rounding
  arithmetic is modelled.
\<close>

record (overloaded) ('e, 'f) ieee =
  negative :: bool
  biased_exp :: "'e word"
  fraction :: "'f word"

type_synonym double = "(11, 52) ieee"
type_synonym float = "(8, 23) ieee"

definition isfinite :: "('e::len, 'f::len) ieee \<Rightarrow> bool" where
  "isfinite v = (biased_exp v \<noteq> - 1)"

definition isinf :: "('e::len, 'f::len) ieee \<Rightarrow> bool" where
  "isinf v = (biased_exp v = - 1 \<and> fraction v = 0)"

definition isnan :: "('e::len, 'f::len) ieee \<Rightarrow> bool" where
  "isnan v = (biased_exp v = - 1 \<and> fraction v \<noteq> 0)"

definition bias :: "('e::len, 'f::len) ieee \<Rightarrow> nat" where
  "bias v = 2 ^ (LENGTH('e) - 1) - 1"

text \<open>
  The magnitude of a finite pattern in units of \<open>2 ^ - (bias + LENGTH('f))\<close>:
  a subnormal (exponent field 0) has no hidden bit and the exponent of the
  smallest normal; a normal has the hidden bit.
\<close>

definition significand_units :: "('e::len, 'f::len) ieee \<Rightarrow> nat" where
  "significand_units v =
     (if biased_exp v = 0 then 2 * unat (fraction v)
      else (2 ^ LENGTH('f) + unat (fraction v)) * 2 ^ unat (biased_exp v))"

definition to_real :: "('e::len, 'f::len) ieee \<Rightarrow> real" where
  "to_real v =
     (if negative v then - 1 else 1) *
     (real (significand_units v) / 2 ^ (bias v + LENGTH('f)))"

text \<open>\<^verbatim>\<open>0.0\<close>, as written by \<^verbatim>\<open>Eigen::Vector3d::Zero()\<close>.\<close>

definition double_zero :: double where
  "double_zero = \<lparr> negative = False, biased_exp = 0, fraction = 0 \<rparr>"

text \<open>
  \<^verbatim>\<open>std::numeric_limits<double>::max()\<close> of the C++ standard library: for
  binary64 the pattern with exponent field \<open>2046\<close> and all fraction bits set.
\<close>

definition numeric_limits_double_max :: double where
  "numeric_limits_double_max = \<lparr> negative = False, biased_exp = 2046, fraction = - 1 \<rparr>"

section \<open>Data model of \<^verbatim>\<open>world_base.h\<close>\<close>

text \<open>\<^verbatim>\<open>Eigen::Matrix<Scalar, 3, 1>\<close>; \<^verbatim>\<open>Eigen::Vector3d\<close> is the instance at \<^verbatim>\<open>double\<close>.\<close>

datatype 'a Vector3 = Vector3 (vx: 'a) (vy: 'a) (vz: 'a)

type_synonym Vector3d = "double Vector3"

text \<open>\<^verbatim>\<open>enum CellStatus { kFree = 0, kOccupied = 1, kUnknown = 2 }\<close>\<close>

datatype CellStatus = kFree | kOccupied | kUnknown

text \<open>
  The only data member of \<^verbatim>\<open>WorldBase\<close> is
  \<^verbatim>\<open>std::shared_ptr<WeighingFunction> weighing_function_\<close>: a null pointer is
  \<open>None\<close>, a pointer to a strategy object \<open>strategy\<close> is \<open>Some strategy\<close>. The field is named
  \<open>weighing_function_ptr\<close>, a trailing underscore not being a name of a term here.
\<close>

record 'wf WorldBase =
  weighing_function_ptr :: "'wf option"

text \<open>
  An object of a class derived from \<^verbatim>\<open>WorldBase\<close> is an extension of this
  record; the member functions below are those of \<^verbatim>\<open>WorldBase\<close> and apply to every
  such object whose class does not override them.
\<close>

text \<open>\<^verbatim>\<open>WorldBase() {}\<close>: the shared pointer is default-constructed, hence null.\<close>

definition WorldBase_ctor :: "'wf WorldBase" where
  "WorldBase_ctor = \<lparr> weighing_function_ptr = None \<rparr>"

subsection \<open>Manual edits\<close>

text \<open>Both bodies are empty: the object is returned as it was.\<close>

definition setFree ::
  "('wf, 'z) WorldBase_scheme \<Rightarrow> Vector3d \<Rightarrow> Vector3d \<Rightarrow> ('wf, 'z) WorldBase_scheme" where
  "setFree w position bounding_box_size = w"

definition setOccupied ::
  "('wf, 'z) WorldBase_scheme \<Rightarrow> Vector3d \<Rightarrow> Vector3d \<Rightarrow> ('wf, 'z) WorldBase_scheme" where
  "setOccupied w position bounding_box_size = w"

subsection \<open>Queries\<close>

definition getCellStatusBoundingBox ::
  "('wf, 'z) WorldBase_scheme \<Rightarrow> Vector3d \<Rightarrow> Vector3d \<Rightarrow> CellStatus" where
  "getCellStatusBoundingBox w point bounding_box_size = kFree"

definition getCellStatusPoint :: "('wf, 'z) WorldBase_scheme \<Rightarrow> Vector3d \<Rightarrow> CellStatus" where
  "getCellStatusPoint w point = kFree"

definition getLineStatus ::
  "('wf, 'z) WorldBase_scheme \<Rightarrow> Vector3d \<Rightarrow> Vector3d \<Rightarrow> CellStatus" where
  "getLineStatus w start end = kFree"

definition getLineStatusBoundingBox ::
  "('wf, 'z) WorldBase_scheme \<Rightarrow> Vector3d \<Rightarrow> Vector3d \<Rightarrow> Vector3d \<Rightarrow> CellStatus" where
  "getLineStatusBoundingBox w start end bounding_box = kFree"

definition getMapCenter :: "('wf, 'z) WorldBase_scheme \<Rightarrow> Vector3d" where
  "getMapCenter w = Vector3 double_zero double_zero double_zero"

definition getMapSize :: "('wf, 'z) WorldBase_scheme \<Rightarrow> Vector3d" where
  "getMapSize w =
     Vector3 numeric_limits_double_max numeric_limits_double_max numeric_limits_double_max"

subsection \<open>The weighing function\<close>

definition setWeighingFunction ::
  "('wf, 'z) WorldBase_scheme \<Rightarrow> 'wf option \<Rightarrow> ('wf, 'z) WorldBase_scheme" where
  "setWeighingFunction w weighing_function = w\<lparr> weighing_function_ptr := weighing_function \<rparr>"

text \<open>
  \<^verbatim>\<open>if (weighing_function_) { return true; } return false;\<close> : the test of a
  shared pointer is the test that it is not null.
\<close>

definition isWeighingFunctionSet :: "('wf, 'z) WorldBase_scheme \<Rightarrow> bool" where
  "isWeighingFunctionSet w = (if weighing_function_ptr w \<noteq> None then True else False)"

subsection \<open>The default insertion hooks\<close>

text \<open>
  \<^verbatim>\<open>kindr::minimal::QuatTransformation\<close>: a rotation quaternion and a position.
  Scalars that enter geometry are reals here: exact arithmetic stands for the
  rounded binary64 arithmetic of the program.
\<close>

datatype 'a Vector4 = Vector4 (x4: 'a) (y4: 'a) (z4: 'a) (w4: 'a)

record Transformation =
  getRotation :: "real Vector4"
  getPosition :: "real Vector3"

text \<open>
  \<^verbatim>\<open>cv::Mat\<close>: \<open>rows\<close> times \<open>cols\<close> elements, stored row by row.
  \<^verbatim>\<open>cv::Mat::empty()\<close> holds when the matrix has no element.
\<close>

record 'a Mat =
  rows :: nat
  cols :: nat
  data :: "'a list"

definition empty_Mat :: "'a Mat \<Rightarrow> bool" where
  "empty_Mat m = (rows m * cols m = 0)"

text \<open>
  The projected points handed to a backend (\<^verbatim>\<open>CV_32FC3\<close> in the header's
  comment): a point of the sensor frame, or \<open>None\<close> for a pixel without a
  measurement.
\<close>

type_synonym PointField = "real Vector3 option Mat"

text \<open>\<^verbatim>\<open>pcl::PointCloud<pcl::PointXYZ>\<close>: points with three \<^verbatim>\<open>float\<close> coordinates.\<close>

type_synonym PointCloud = "float Vector3 list"

text \<open>
  What an insertion call can touch: the object itself and the glog sink that
  \<^verbatim>\<open>LOG(severity) << message\<close> appends to.
\<close>

datatype LogSeverity = INFO | WARNING | ERROR | FATAL

record 'w Machine =
  object :: 'w
  glog :: "(LogSeverity \<times> string) list"

definition LOG :: "LogSeverity \<Rightarrow> string \<Rightarrow> 'w Machine \<Rightarrow> 'w Machine" where
  "LOG severity message m = m\<lparr> glog := glog m @ [(severity, message)] \<rparr>"

definition insertProjectedDisparityIntoMapImpl ::
  "Transformation \<Rightarrow> PointField \<Rightarrow> 'w Machine \<Rightarrow> 'w Machine" where
  "insertProjectedDisparityIntoMapImpl sensor_to_world projected_points m =
     LOG ERROR ''Calling unimplemented disparity insertion!'' m"

definition insertProjectedDisparityIntoMapWithWeightsImpl ::
  "Transformation \<Rightarrow> PointField \<Rightarrow> real Mat \<Rightarrow> 'w Machine \<Rightarrow> 'w Machine" where
  "insertProjectedDisparityIntoMapWithWeightsImpl sensor_to_world projected_points weights m =
     LOG ERROR ''Calling unimplemented disparity insertion!'' m"

definition insertPointcloudIntoMapImpl ::
  "Transformation \<Rightarrow> PointCloud \<Rightarrow> 'w Machine \<Rightarrow> 'w Machine" where
  "insertPointcloudIntoMapImpl sensor_to_world pointcloud m =
     LOG ERROR ''Calling unimplemented pointcloud insertion!'' m"

definition insertPointcloudIntoMapWithWeightsImpl ::
  "Transformation \<Rightarrow> PointCloud \<Rightarrow> real list \<Rightarrow> 'w Machine \<Rightarrow> 'w Machine" where
  "insertPointcloudIntoMapWithWeightsImpl sensor_to_world pointcloud weights m =
     LOG ERROR ''Calling unimplemented disparity insertion!'' m"

text \<open>
  The four hooks are virtual: a backend is the table of the four functions its
  class installs, and \<open>WorldBase_hooks\<close> is the table of \<^verbatim>\<open>WorldBase\<close> itself.
\<close>

record 'w Backend =
  disparity_hook :: "Transformation \<Rightarrow> PointField \<Rightarrow> 'w Machine \<Rightarrow> 'w Machine"
  disparity_weights_hook ::
    "Transformation \<Rightarrow> PointField \<Rightarrow> real Mat \<Rightarrow> 'w Machine \<Rightarrow> 'w Machine"
  pointcloud_hook :: "Transformation \<Rightarrow> PointCloud \<Rightarrow> 'w Machine \<Rightarrow> 'w Machine"
  pointcloud_weights_hook ::
    "Transformation \<Rightarrow> PointCloud \<Rightarrow> real list \<Rightarrow> 'w Machine \<Rightarrow> 'w Machine"

definition WorldBase_hooks :: "'w Backend" where
  "WorldBase_hooks =
     \<lparr> disparity_hook = insertProjectedDisparityIntoMapImpl,
       disparity_weights_hook = insertProjectedDisparityIntoMapWithWeightsImpl,
       pointcloud_hook = insertPointcloudIntoMapImpl,
       pointcloud_weights_hook = insertPointcloudIntoMapWithWeightsImpl \<rparr>"

section \<open>The insertion pipeline\<close>

text \<open>
  \<^verbatim>\<open>world_base.h\<close> declares \<^verbatim>\<open>insertDisparityImage\<close>, \<^verbatim>\<open>insertPointcloud\<close>,
  \<^verbatim>\<open>computeWeights\<close>, \<^verbatim>\<open>getQForCameras\<close> and \<^verbatim>\<open>generateQ\<close> and includes
  \<^verbatim>\<open>weighing_function.h\<close>; the bodies and the included header are not among the
  sources. The definitions of this section follow the specification
  (sections 3, 4.1 to 4.4 and 7). What the specification leaves open (a
  threshold, a sentinel, a consistency test, the entries of a matrix) is a field
  of a policy record, so that each statement below holds for every choice.
\<close>

subsection \<open>Weighing strategy\<close>

text \<open>
  Modelled from the spec: the class \<^verbatim>\<open>WeighingFunction\<close> of
  \<^verbatim>\<open>weighing_function.h\<close> is missing. Section 3: a capability that maps a raw
  measurement (a disparity scalar, or a 3D point) to a scalar weight.
\<close>

record WeighingFunction =
  computeWeightForDisparity :: "real \<Rightarrow> real"
  computeWeightForPoint :: "float Vector3 \<Rightarrow> real"

subsection \<open>Calls, failures and virtual dispatch\<close>

datatype IngestionError = EmptyInput | DimensionMismatch

datatype Hook = DisparityHook | DisparityWeightsHook | PointcloudHook | PointcloudWeightsHook

text \<open>
  The outcome of one insertion call: the failure signalled to the caller if
  any, the virtual hooks the call invoked, in order, and the machine after it.
\<close>

record 'w Outcome =
  failure :: "IngestionError option"
  hooks_invoked :: "Hook list"
  final :: "'w Machine"

definition enter_call :: "'w Machine \<Rightarrow> 'w Outcome" where
  "enter_call m = \<lparr> failure = None, hooks_invoked = [], final = m \<rparr>"

definition abort_call :: "IngestionError \<Rightarrow> 'w Outcome \<Rightarrow> 'w Outcome" where
  "abort_call err out = out\<lparr> failure := Some err \<rparr>"

definition call_virtual :: "Hook \<Rightarrow> ('w Machine \<Rightarrow> 'w Machine) \<Rightarrow> 'w Outcome \<Rightarrow> 'w Outcome" where
  "call_virtual h f out =
     out\<lparr> hooks_invoked := hooks_invoked out @ [h], final := f (final out) \<rparr>"

subsection \<open>Disparity ingestion\<close>

datatype 'a Vector2 = Vector2 (x2: 'a) (y2: 'a)

datatype 'a Matrix4 =
  Matrix4 (row0: "'a Vector4") (row1: "'a Vector4") (row2: "'a Vector4") (row3: "'a Vector4")

definition dot4 :: "real Vector4 \<Rightarrow> real Vector4 \<Rightarrow> real" where
  "dot4 a b = x4 a * x4 b + y4 a * y4 b + z4 a * z4 b + w4 a * w4 b"

definition mat_vec4 :: "real Matrix4 \<Rightarrow> real Vector4 \<Rightarrow> real Vector4" where
  "mat_vec4 Q v = Vector4 (dot4 (row0 Q) v) (dot4 (row1 Q) v) (dot4 (row2 Q) v) (dot4 (row3 Q) v)"

text \<open>
  Modelled from the spec: the open points of sections 4.2 and 4.4. \<open>w_epsilon\<close>
  is the bound below which \<open>W\<close> counts as about zero, \<open>is_sentinel\<close> recognises
  a sentinel disparity, \<open>dimensions_consistent\<close> is the test of the image's rows
  and columns against \<open>Q\<close> and the full image size, \<open>rescaleQ\<close> adjusts \<open>Q\<close> to
  the resolution of the image.
\<close>

record IngestionPolicy =
  w_epsilon :: real
  is_sentinel :: "real \<Rightarrow> bool"
  dimensions_consistent :: "nat \<Rightarrow> nat \<Rightarrow> real Matrix4 \<Rightarrow> real Vector2 \<Rightarrow> bool"
  rescaleQ :: "real Matrix4 \<Rightarrow> real Vector2 \<Rightarrow> nat \<Rightarrow> nat \<Rightarrow> real Matrix4"

text \<open>
  Modelled from the spec: the homogeneous coordinates of the pixel in column
  \<open>u\<close> and row \<open>v\<close> with disparity \<open>d\<close> (section 3: \<open>Q\<close> maps
  (pixel-x, pixel-y, disparity, 1) to \<open>(X, Y, Z, W)\<close>).
\<close>

definition homogeneous :: "real Matrix4 \<Rightarrow> nat \<Rightarrow> nat \<Rightarrow> real \<Rightarrow> real Vector4" where
  "homogeneous Q u v d = mat_vec4 Q (Vector4 (real u) (real v) d 1)"

text \<open>
  Modelled from the spec: one pixel of disparity ingestion, missing with the
  body of \<^verbatim>\<open>insertDisparityImage\<close>. Section 4.2: a pixel without a valid
  disparity (disparity \<open>\<le> 0\<close> or a sentinel) gets the invalid marker; else the
  pixel is transformed by \<open>Q\<close> and divided by \<open>W\<close>, and a pixel whose \<open>W\<close> is
  zero or about zero is marked invalid rather than divided.
\<close>

definition reprojectPixel ::
  "IngestionPolicy \<Rightarrow> real Matrix4 \<Rightarrow> nat \<Rightarrow> nat \<Rightarrow> real \<Rightarrow> real Vector3 option" where
  "reprojectPixel pol Q u v d =
     (if d \<le> 0 \<or> is_sentinel pol d then None
      else
        let h = homogeneous Q u v d in
        if w4 h = 0 \<or> \<bar>w4 h\<bar> \<le> w_epsilon pol then None
        else Some (Vector3 (x4 h / w4 h) (y4 h / w4 h) (z4 h / w4 h)))"

text \<open>
  Modelled from the spec: disparity ingestion over the whole image. The output
  has the pixel dimensions of the input; the element at index \<open>i\<close> of the
  row-major data is the pixel in column \<open>i mod cols\<close> and row \<open>i div cols\<close>.
\<close>

definition reprojectImageTo3D :: "IngestionPolicy \<Rightarrow> real Mat \<Rightarrow> real Matrix4 \<Rightarrow> PointField" where
  "reprojectImageTo3D pol disparity Q =
     \<lparr> rows = rows disparity, cols = cols disparity,
       data = map (\<lambda>(i, d). reprojectPixel pol Q (i mod cols disparity) (i div cols disparity) d)
                (zip [0 ..< length (data disparity)] (data disparity)) \<rparr>"

text \<open>
  Modelled from the spec: \<^verbatim>\<open>computeWeights(disparity, weights)\<close>, declared in the
  header. Section 4.2: the weight field is computed from the raw disparity by
  the attached weighing function, aligned with the points by index.
\<close>

definition computeWeights_disparity :: "WeighingFunction \<Rightarrow> real Mat \<Rightarrow> real Mat" where
  "computeWeights_disparity strategy disparity =
     \<lparr> rows = rows disparity, cols = cols disparity,
       data = map (computeWeightForDisparity strategy) (data disparity) \<rparr>"

text \<open>
  Modelled from the spec: the input validation of \<^verbatim>\<open>insertDisparityImage\<close>
  (section 4.4: non-empty image, consistent dimensions; section 7: signalled
  before any backend call is made).
\<close>

definition validateDisparity ::
  "IngestionPolicy \<Rightarrow> real Mat \<Rightarrow> real Matrix4 \<Rightarrow> real Vector2 \<Rightarrow> IngestionError option" where
  "validateDisparity pol disparity Q_full full_image_size =
     (if empty_Mat disparity then Some EmptyInput
      else if \<not> dimensions_consistent pol (rows disparity) (cols disparity) Q_full full_image_size
      then Some DimensionMismatch
      else None)"

text \<open>
  Modelled from the spec: \<^verbatim>\<open>insertDisparityImage\<close> (the \<^verbatim>\<open>cv::Mat\<close> overload), whose
  body is missing. Section 4.4: validate, run disparity ingestion, then forward
  the point field and the untouched transform to the weighted hook if a weighing
  function is set and to the unweighted hook otherwise. Section 4.4, failure
  semantics: a validation failure aborts the call.
\<close>

definition insertDisparityImage ::
  "IngestionPolicy \<Rightarrow> (WeighingFunction, 'z) WorldBase_scheme Backend \<Rightarrow> Transformation \<Rightarrow>
   real Mat \<Rightarrow> real Matrix4 \<Rightarrow> real Vector2 \<Rightarrow>
   (WeighingFunction, 'z) WorldBase_scheme Machine \<Rightarrow>
   (WeighingFunction, 'z) WorldBase_scheme Outcome" where
  "insertDisparityImage pol backend sensor_to_world disparity Q_full full_image_size m =
     (case validateDisparity pol disparity Q_full full_image_size of
        Some err \<Rightarrow> abort_call err (enter_call m)
      | None \<Rightarrow>
          let Q = rescaleQ pol Q_full full_image_size (rows disparity) (cols disparity);
              projected_points = reprojectImageTo3D pol disparity Q
          in (case weighing_function_ptr (object m) of
                None \<Rightarrow>
                  call_virtual DisparityHook
                    (disparity_hook backend sensor_to_world projected_points) (enter_call m)
              | Some strategy \<Rightarrow>
                  call_virtual DisparityWeightsHook
                    (disparity_weights_hook backend sensor_to_world projected_points
                       (computeWeights_disparity strategy disparity))
                    (enter_call m)))"

subsection \<open>Point-cloud ingestion\<close>

text \<open>
  Modelled from the spec: the point-cloud message (section 6): an ordered
  collection of records with the geometric fields x, y, z and further fields
  that the pipeline ignores.
\<close>

record 'x PointRecord =
  xyz :: "float Vector3"
  other_fields :: 'x

type_synonym 'x PointCloud2 = "'x PointRecord list"

definition finite_point :: "float Vector3 \<Rightarrow> bool" where
  "finite_point p = (isfinite (vx p) \<and> isfinite (vy p) \<and> isfinite (vz p))"

text \<open>
  Modelled from the spec: point-cloud ingestion, missing with the body of
  \<^verbatim>\<open>insertPointcloud\<close>. Section 4.3: the non-geometric fields are stripped and
  the points with a non-finite coordinate are excluded; \<open>excludedPoints\<close> are
  the points so dropped.
\<close>

definition ingestPointcloud :: "'x PointCloud2 \<Rightarrow> PointCloud" where
  "ingestPointcloud cloud_msg = filter finite_point (map xyz cloud_msg)"

definition excludedPoints :: "'x PointCloud2 \<Rightarrow> PointCloud" where
  "excludedPoints cloud_msg = filter (\<lambda>p. \<not> finite_point p) (map xyz cloud_msg)"

text \<open>
  Modelled from the spec: \<^verbatim>\<open>computeWeights(cloud, weights)\<close>, declared in the
  header. Section 4.3: one weight for each point of the ingested cloud, from
  the attached weighing function.
\<close>

definition computeWeights_pointcloud :: "WeighingFunction \<Rightarrow> PointCloud \<Rightarrow> real list" where
  "computeWeights_pointcloud strategy cloud = map (computeWeightForPoint strategy) cloud"

text \<open>
  Modelled from the spec: \<^verbatim>\<open>insertPointcloud\<close>, whose body is missing. Section
  4.4: the same pattern as \<^verbatim>\<open>insertDisparityImage\<close>, through point-cloud
  ingestion; section 7: an empty cloud is an ingestion error.
\<close>

definition insertPointcloud ::
  "(WeighingFunction, 'z) WorldBase_scheme Backend \<Rightarrow> Transformation \<Rightarrow> 'x PointCloud2 \<Rightarrow>
   (WeighingFunction, 'z) WorldBase_scheme Machine \<Rightarrow>
   (WeighingFunction, 'z) WorldBase_scheme Outcome" where
  "insertPointcloud backend sensor_to_world cloud_msg m =
     (case cloud_msg of
        [] \<Rightarrow> abort_call EmptyInput (enter_call m)
      | _ # _ \<Rightarrow>
          let cloud = ingestPointcloud cloud_msg
          in (case weighing_function_ptr (object m) of
                None \<Rightarrow>
                  call_virtual PointcloudHook
                    (pointcloud_hook backend sensor_to_world cloud) (enter_call m)
              | Some strategy \<Rightarrow>
                  call_virtual PointcloudWeightsHook
                    (pointcloud_weights_hook backend sensor_to_world cloud
                       (computeWeights_pointcloud strategy cloud))
                    (enter_call m)))"

subsection \<open>Calibration\<close>

datatype 'a Matrix3 = Matrix3 (r0: "'a Vector3") (r1: "'a Vector3") (r2: "'a Vector3")

datatype CalibrationError = DegenerateBaseline

text \<open>
  Modelled from the spec: the open points of section 4.1. \<open>baseline_epsilon\<close>
  is the bound below which a baseline counts as near zero;
  \<open>reprojection_matrix\<close> gives the entries of \<open>Q\<close> for a baseline that is not
  degenerate, in the order of the parameters of \<^verbatim>\<open>generateQ\<close>.
\<close>

record CalibrationPolicy =
  baseline_epsilon :: real
  reprojection_matrix ::
    "real \<Rightarrow> real \<Rightarrow> real \<Rightarrow> real \<Rightarrow> real \<Rightarrow> real \<Rightarrow> real \<Rightarrow> real \<Rightarrow> real \<Rightarrow> real Matrix4"

definition degenerate_baseline :: "CalibrationPolicy \<Rightarrow> real \<Rightarrow> bool" where
  "degenerate_baseline pol Tx = (Tx = 0 \<or> \<bar>Tx\<bar> \<le> baseline_epsilon pol)"

text \<open>
  Modelled from the spec: \<^verbatim>\<open>generateQ\<close>, whose body is missing. Section 4.1,
  failure mode: a zero or near-zero baseline is surfaced as a precondition
  violation instead of a matrix.
\<close>

definition generateQ ::
  "CalibrationPolicy \<Rightarrow> real \<Rightarrow> real \<Rightarrow> real \<Rightarrow> real \<Rightarrow> real \<Rightarrow> real \<Rightarrow> real \<Rightarrow> real \<Rightarrow> real \<Rightarrow>
   CalibrationError + real Matrix4" where
  "generateQ pol Tx left_cx left_cy left_fx left_fy right_cx right_cy right_fx right_fy =
     (if degenerate_baseline pol Tx then Inl DegenerateBaseline
      else Inr (reprojection_matrix pol Tx left_cx left_cy left_fx left_fy
                  right_cx right_cy right_fx right_fy))"

text \<open>The magnitude of a translation.\<close>

definition norm3 :: "real Vector3 \<Rightarrow> real" where
  "norm3 t = sqrt (vx t * vx t + vy t * vy t + vz t * vz t)"

text \<open>
  Modelled from the spec: \<^verbatim>\<open>getQForCameras\<close>, whose body is missing. Section 4.1:
  from the two intrinsic matrices (focal lengths on the diagonal, principal
  point in the last column) and the rigid transform between the camera frames,
  whose translation magnitude is the baseline. The matrix is computed for the
  full resolution, whatever the image size.
\<close>

definition getQForCameras ::
  "CalibrationPolicy \<Rightarrow> Transformation \<Rightarrow> real Matrix3 \<Rightarrow> real Matrix3 \<Rightarrow> real Vector2 \<Rightarrow>
   CalibrationError + real Matrix4" where
  "getQForCameras pol T_C1_C0 left_cam_matrix right_cam_matrix full_image_size =
     generateQ pol (norm3 (getPosition T_C1_C0))
       (vz (r0 left_cam_matrix)) (vz (r1 left_cam_matrix))
       (vx (r0 left_cam_matrix)) (vy (r1 left_cam_matrix))
       (vz (r0 right_cam_matrix)) (vz (r1 right_cam_matrix))
       (vx (r0 right_cam_matrix)) (vy (r1 right_cam_matrix))"

section \<open>Concrete inputs\<close>

text \<open>
  A small calibration, image and cloud at which the statements below are
  evaluated: focal length 500, baseline \<open>1 / 10\<close>, principal point in column 1
  of an image of one row and three columns; a cloud of two points, one of them
  with a NaN coordinate.
\<close>

definition example_policy :: IngestionPolicy where
  "example_policy =
     \<lparr> w_epsilon = 1 / 1000,
       is_sentinel = (\<lambda>d. d = 65535),
       dimensions_consistent = (\<lambda>r c Q fs. real c \<le> x2 fs \<and> real r \<le> y2 fs),
       rescaleQ = (\<lambda>Q fs r c. Q) \<rparr>"

definition example_Q :: "real Matrix4" where
  "example_Q =
     Matrix4 (Vector4 1 0 0 (- 1)) (Vector4 0 1 0 0) (Vector4 0 0 0 500) (Vector4 0 0 10 0)"

definition example_disparity :: "real Mat" where
  "example_disparity = \<lparr> rows = 1, cols = 3, data = [5, 0, 1 / 100000] \<rparr>"

definition example_size :: "real Vector2" where
  "example_size = Vector2 3 1"

definition example_transform :: Transformation where
  "example_transform = \<lparr> getRotation = Vector4 0 0 0 1, getPosition = Vector3 0 0 0 \<rparr>"

definition example_strategy :: WeighingFunction where
  "example_strategy =
     \<lparr> computeWeightForDisparity = (\<lambda>d. 1), computeWeightForPoint = (\<lambda>p. 1) \<rparr>"

definition example_machine :: "WeighingFunction WorldBase Machine" where
  "example_machine = \<lparr> object = WorldBase_ctor, glog = [] \<rparr>"

definition float_one :: float where
  "float_one = \<lparr> negative = False, biased_exp = 127, fraction = 0 \<rparr>"

definition float_nan :: float where
  "float_nan = \<lparr> negative = False, biased_exp = 255, fraction = 1 \<rparr>"

definition example_cloud :: "unit PointCloud2" where
  "example_cloud =
     [\<lparr> xyz = Vector3 float_one float_one float_one, other_fields = () \<rparr>,
      \<lparr> xyz = Vector3 float_one float_nan float_one, other_fields = () \<rparr>]"

definition empty_disparity :: "real Mat" where
  "empty_disparity = \<lparr> rows = 0, cols = 0, data = [] \<rparr>"

definition oversized_disparity :: "real Mat" where
  "oversized_disparity = \<lparr> rows = 1, cols = 4, data = [1, 1, 1, 1] \<rparr>"

definition example_calibration :: CalibrationPolicy where
  "example_calibration =
     \<lparr> baseline_epsilon = 1 / 1000,
       reprojection_matrix =
         (\<lambda>Tx left_cx left_cy left_fx left_fy right_cx right_cy right_fx right_fy.
            Matrix4 (Vector4 1 0 0 (- left_cx)) (Vector4 0 1 0 (- left_cy))
              (Vector4 0 0 0 left_fx) (Vector4 0 0 (1 / Tx) ((right_cx - left_cx) / Tx))) \<rparr>"

definition example_camera :: "real Matrix3" where
  "example_camera = Matrix3 (Vector3 500 0 1) (Vector3 0 500 0) (Vector3 0 0 1)"

section \<open>The largest finite binary64 value\<close>

lemma unat_all_ones_52: "unat (- 1 :: 52 word) = 2 ^ 52 - 1"
  by (simp add: unsigned_minus_1_eq_mask mask_eq_exp_minus_1)

lemma unat_all_ones_11: "unat (- 1 :: 11 word) = 2047"
  by (simp add: unsigned_minus_1_eq_mask mask_eq_exp_minus_1)

lemma exp_field_bound:
  fixes e :: "11 word"
  assumes "e \<noteq> - 1"
  shows "unat e \<le> 2046"
proof -
  have "unat e < 2 ^ LENGTH(11)" by (rule unsigned_less)
  moreover have "unat e \<noteq> unat (- 1 :: 11 word)"
    using assms by (simp add: word_unat_eq_iff)
  ultimately show ?thesis by (simp add: unat_all_ones_11)
qed

lemma frac_field_bound:
  fixes m :: "52 word"
  shows "unat m \<le> 2 ^ 52 - 1"
proof -
  have "unat m < 2 ^ LENGTH(52)" by (rule unsigned_less)
  then show ?thesis by simp
qed

lemma units_mono:
  fixes m e E :: nat
  assumes "m \<le> 2 ^ 52 - 1" and "e \<le> E"
  shows "(2 ^ 52 + m) * 2 ^ e \<le> (2 ^ 53 - 1) * 2 ^ E"
proof -
  have "2 ^ 52 + m \<le> (2 ^ 53 - 1 :: nat)" using assms(1) by simp
  moreover have "(2::nat) ^ e \<le> 2 ^ E" using assms(2) by (simp add: power_increasing)
  ultimately show ?thesis by (rule mult_le_mono)
qed

lemma max_units: "significand_units numeric_limits_double_max = (2 ^ 53 - 1) * 2 ^ 2046"
proof -
  have "significand_units numeric_limits_double_max = (2 ^ 52 + (2 ^ 52 - 1)) * 2 ^ 2046"
    unfolding significand_units_def numeric_limits_double_max_def
    by (simp add: unat_all_ones_52 del: power_numeral)
  moreover have "(2 ^ 52 + (2 ^ 52 - 1) :: nat) = 2 ^ 53 - 1" by simp
  ultimately show ?thesis by (simp only:)
qed

lemma finite_units_le_max:
  fixes d :: double
  assumes "isfinite d"
  shows "significand_units d \<le> significand_units numeric_limits_double_max"
proof (cases "biased_exp d = 0")
  case True
  then have u: "significand_units d = 2 * unat (fraction d)"
    by (simp add: significand_units_def)
  have "2 * unat (fraction d) \<le> (2 ^ 52 + unat (fraction d)) * 2 ^ 0"
    using frac_field_bound [of "fraction d"] by simp
  also have "\<dots> \<le> (2 ^ 53 - 1) * 2 ^ 2046"
    by (rule units_mono [OF frac_field_bound]) simp
  finally show ?thesis unfolding u max_units .
next
  case False
  then have u: "significand_units d = (2 ^ 52 + unat (fraction d)) * 2 ^ unat (biased_exp d)"
    by (simp add: significand_units_def del: power_numeral)
  have "unat (biased_exp d) \<le> 2046"
    using assms by (intro exp_field_bound) (simp add: isfinite_def)
  then have "(2 ^ 52 + unat (fraction d)) * 2 ^ unat (biased_exp d) \<le> (2 ^ 53 - 1) * 2 ^ 2046"
    by (rule units_mono [OF frac_field_bound])
  then show ?thesis unfolding u max_units .
qed

lemma bias_double: "bias (d :: double) = 1023"
  by (simp add: bias_def)

lemma to_real_max: "to_real numeric_limits_double_max = (2 ^ 53 - 1) * 2 ^ 971"
proof -
  have split: "(2::real) ^ 2046 = 2 ^ 971 * 2 ^ 1075"
    by (simp add: power_add [symmetric] del: power_numeral)
  have nz: "(2::real) ^ 1075 \<noteq> 0"
    by (rule power_not_zero) simp
  have "to_real numeric_limits_double_max = real ((2 ^ 53 - 1) * 2 ^ 2046) / 2 ^ 1075"
    unfolding to_real_def max_units bias_double
    by (simp add: numeric_limits_double_max_def del: power_numeral of_nat_mult of_nat_power)
  also have "\<dots> = (2 ^ 53 - 1) * (2 ^ 2046 / 2 ^ 1075)"
    by (simp del: power_numeral)
  also have "\<dots> = (2 ^ 53 - 1) * 2 ^ 971"
    unfolding split by (simp only: nonzero_mult_div_cancel_right [OF nz])
  finally show ?thesis .
qed

lemma finite_le_max:
  fixes d :: double
  assumes "isfinite d"
  shows "to_real d \<le> to_real numeric_limits_double_max"
proof -
  let ?s = "2 ^ (1023 + LENGTH(52)) :: real"
  let ?q = "real (significand_units d) / ?s"
  let ?Q = "real (significand_units numeric_limits_double_max) / ?s"
  have pos: "0 \<le> ?s" by (rule zero_le_power) simp
  have le: "?q \<le> ?Q"
    using finite_units_le_max [OF assms] pos by (simp only: divide_right_mono of_nat_le_iff)
  have nonneg: "0 \<le> ?q"
    using pos by (rule divide_nonneg_nonneg [OF of_nat_0_le_iff])
  have top: "to_real numeric_limits_double_max = ?Q"
    unfolding to_real_def bias_double by (simp add: numeric_limits_double_max_def del: power_numeral)
  have "to_real d = ?q \<or> to_real d = - ?q"
    unfolding to_real_def bias_double by (simp del: power_numeral)
  then show ?thesis
    unfolding top using le nonneg by linarith
qed


section \<open>Facts about the definitions\<close>

lemmas call_defs = enter_call_def abort_call_def call_virtual_def

lemmas hook_defs =
  insertProjectedDisparityIntoMapImpl_def insertProjectedDisparityIntoMapWithWeightsImpl_def
  insertPointcloudIntoMapImpl_def insertPointcloudIntoMapWithWeightsImpl_def LOG_def

lemma reprojectImageTo3D_nth:
  assumes "i < length (data disparity)"
  shows "data (reprojectImageTo3D pol disparity Q) ! i
         = reprojectPixel pol Q (i mod cols disparity) (i div cols disparity) (data disparity ! i)"
  using assms by (simp add: reprojectImageTo3D_def)

lemma float_one_finite: "isfinite float_one"
  by (simp add: isfinite_def float_one_def)

lemma float_nan_not_finite: "\<not> isfinite float_nan"
  by (simp add: isfinite_def float_nan_def)

lemma example_valid:
  "validateDisparity example_policy example_disparity example_Q example_size = None"
  by (simp add: validateDisparity_def example_policy_def example_disparity_def example_size_def
      empty_Mat_def)

lemma example_data: "data example_disparity = [5, 0, 1 / 100000]" "cols example_disparity = 3"
  by (simp_all add: example_disparity_def)

lemma example_homogeneous:
  "homogeneous example_Q u v d = Vector4 (real u - 1) (real v) 500 (10 * d)"
  by (simp add: homogeneous_def mat_vec4_def dot4_def example_Q_def)

section \<open>The default world: queries and edits\<close>

text \<open>
  C1. On the default (empty-world) backend each of the four status queries
  returns \<open>kFree\<close> for every input, degenerate ones included (a bounding box of
  size zero, a line whose start and end coincide), and so a value among
  \<open>kFree\<close>, \<open>kOccupied\<close>, \<open>kUnknown\<close>.
\<close>

theorem default_queries_free:
  "getCellStatusPoint w p = kFree
   \<and> getCellStatusBoundingBox w p b = kFree
   \<and> getLineStatus w s e = kFree
   \<and> getLineStatusBoundingBox w s e b = kFree
   \<and> getCellStatusBoundingBox w p (Vector3 double_zero double_zero double_zero) = kFree
   \<and> getLineStatus w s s = kFree
   \<and> getLineStatusBoundingBox w s s b = kFree
   \<and> getCellStatusPoint w p \<in> {kFree, kOccupied, kUnknown}
   \<and> getCellStatusBoundingBox w p b \<in> {kFree, kOccupied, kUnknown}
   \<and> getLineStatus w s e \<in> {kFree, kOccupied, kUnknown}
   \<and> getLineStatusBoundingBox w s e b \<in> {kFree, kOccupied, kUnknown}"
  by (simp add: getCellStatusPoint_def getCellStatusBoundingBox_def
      getLineStatus_def getLineStatusBoundingBox_def)

text \<open>
  C2. On the default backend \<open>setFree\<close> and \<open>setOccupied\<close> change nothing, for
  every position and bounding-box size: the object after the call is the object
  before it, and a point query at the edited position (as at any other point)
  still answers \<open>kFree\<close>.
\<close>

theorem default_edits_noop:
  "setFree w p b = w
   \<and> setOccupied w p b = w
   \<and> getCellStatusPoint (setOccupied w p b) p = kFree
   \<and> getCellStatusPoint (setOccupied w p b) q = getCellStatusPoint w q
   \<and> getCellStatusPoint (setFree w p b) q = getCellStatusPoint w q"
  by (simp add: setFree_def setOccupied_def getCellStatusPoint_def)

section \<open>Dispatch of insertion calls\<close>

text \<open>
  C3. In the pipeline as the specification describes it, an insertion call that
  passes input validation invokes exactly one backend hook: for a disparity
  image the weighted disparity hook if a weighing function is set at the time
  of the call and the unweighted disparity hook otherwise, for a point cloud
  the weighted or the unweighted point-cloud hook alike. The call signals no
  failure, and the machine after it is the machine that this one hook returns.
\<close>

theorem insertion_invokes_exactly_one_hook:
  fixes m :: "(WeighingFunction, 'z) WorldBase_scheme Machine"
  shows
  "(validateDisparity pol disparity Q_full full_image_size = None \<longrightarrow>
      failure (insertDisparityImage pol backend sensor_to_world disparity Q_full full_image_size m) = None
      \<and> hooks_invoked (insertDisparityImage pol backend sensor_to_world disparity Q_full full_image_size m)
          = [if isWeighingFunctionSet (object m) then DisparityWeightsHook else DisparityHook]
      \<and> final (insertDisparityImage pol backend sensor_to_world disparity Q_full full_image_size m)
          = (let projected_points =
                   reprojectImageTo3D pol disparity
                     (rescaleQ pol Q_full full_image_size (rows disparity) (cols disparity))
             in case weighing_function_ptr (object m) of
                  None \<Rightarrow> disparity_hook backend sensor_to_world projected_points m
                | Some strategy \<Rightarrow>
                    disparity_weights_hook backend sensor_to_world projected_points
                      (computeWeights_disparity strategy disparity) m))
   \<and> (cloud_msg \<noteq> [] \<longrightarrow>
      failure (insertPointcloud backend sensor_to_world cloud_msg m) = None
      \<and> hooks_invoked (insertPointcloud backend sensor_to_world cloud_msg m)
          = [if isWeighingFunctionSet (object m) then PointcloudWeightsHook else PointcloudHook]
      \<and> final (insertPointcloud backend sensor_to_world cloud_msg m)
          = (case weighing_function_ptr (object m) of
               None \<Rightarrow> pointcloud_hook backend sensor_to_world (ingestPointcloud cloud_msg) m
             | Some strategy \<Rightarrow>
                 pointcloud_weights_hook backend sensor_to_world (ingestPointcloud cloud_msg)
                   (computeWeights_pointcloud strategy (ingestPointcloud cloud_msg)) m))"
  by (cases cloud_msg)
    (simp_all add: insertDisparityImage_def insertPointcloud_def isWeighingFunctionSet_def
      call_defs Let_def split: option.splits)

theorem insertion_invokes_exactly_one_hook_witness:
  "validateDisparity example_policy example_disparity example_Q example_size = None
   \<and> hooks_invoked (insertDisparityImage example_policy WorldBase_hooks example_transform
        example_disparity example_Q example_size example_machine) = [DisparityHook]
   \<and> example_cloud \<noteq> []
   \<and> hooks_invoked (insertPointcloud WorldBase_hooks example_transform example_cloud
        (example_machine\<lparr> object := setWeighingFunction WorldBase_ctor (Some example_strategy) \<rparr>))
       = [PointcloudWeightsHook]"
proof -
  have c: "example_cloud \<noteq> []"
    by (simp add: example_cloud_def)
  have unset: "\<not> isWeighingFunctionSet (object example_machine)"
    by (simp add: isWeighingFunctionSet_def example_machine_def WorldBase_ctor_def)
  have set: "isWeighingFunctionSet
      (object (example_machine\<lparr> object := setWeighingFunction WorldBase_ctor (Some example_strategy) \<rparr>))"
    by (simp add: isWeighingFunctionSet_def setWeighingFunction_def)
  show ?thesis
    using insertion_invokes_exactly_one_hook
      [of example_policy example_disparity example_Q example_size WorldBase_hooks
        example_transform example_machine "[]"]
      insertion_invokes_exactly_one_hook
      [of example_policy example_disparity example_Q example_size WorldBase_hooks
        example_transform
        "example_machine\<lparr> object := setWeighingFunction WorldBase_ctor (Some example_strategy) \<rparr>"
        example_cloud]
      example_valid c unset set
    by simp
qed


text \<open>
  C4. Each of the four default insertion hooks writes one message of severity
  \<open>ERROR\<close> to the log and changes nothing else. Hence a valid insertion call
  against the default backend signals no failure and leaves the object as it
  was, with the one message logged.
\<close>

theorem default_hooks_log_and_return:
  fixes m :: "(WeighingFunction, 'z) WorldBase_scheme Machine"
  shows
  "insertProjectedDisparityIntoMapImpl sensor_to_world projected_points m
     = m\<lparr> glog := glog m @ [(ERROR, ''Calling unimplemented disparity insertion!'')] \<rparr>
   \<and> insertProjectedDisparityIntoMapWithWeightsImpl sensor_to_world projected_points weights m
     = m\<lparr> glog := glog m @ [(ERROR, ''Calling unimplemented disparity insertion!'')] \<rparr>
   \<and> insertPointcloudIntoMapImpl sensor_to_world pointcloud m
     = m\<lparr> glog := glog m @ [(ERROR, ''Calling unimplemented pointcloud insertion!'')] \<rparr>
   \<and> insertPointcloudIntoMapWithWeightsImpl sensor_to_world pointcloud cloud_weights m
     = m\<lparr> glog := glog m @ [(ERROR, ''Calling unimplemented disparity insertion!'')] \<rparr>
   \<and> (validateDisparity pol disparity Q_full full_image_size = None \<longrightarrow>
        failure (insertDisparityImage pol WorldBase_hooks sensor_to_world disparity Q_full
                   full_image_size m) = None
        \<and> object (final (insertDisparityImage pol WorldBase_hooks sensor_to_world disparity Q_full
                   full_image_size m)) = object m
        \<and> glog (final (insertDisparityImage pol WorldBase_hooks sensor_to_world disparity Q_full
                   full_image_size m))
            = glog m @ [(ERROR, ''Calling unimplemented disparity insertion!'')])
   \<and> (cloud_msg \<noteq> [] \<longrightarrow>
        failure (insertPointcloud WorldBase_hooks sensor_to_world cloud_msg m) = None
        \<and> object (final (insertPointcloud WorldBase_hooks sensor_to_world cloud_msg m)) = object m
        \<and> glog (final (insertPointcloud WorldBase_hooks sensor_to_world cloud_msg m))
            = glog m @ [(ERROR,
                 if isWeighingFunctionSet (object m)
                 then ''Calling unimplemented disparity insertion!''
                 else ''Calling unimplemented pointcloud insertion!'')])"
  by (cases cloud_msg)
    (simp_all add: insertDisparityImage_def insertPointcloud_def isWeighingFunctionSet_def
      WorldBase_hooks_def hook_defs call_defs Let_def split: option.splits)

theorem default_hooks_log_and_return_witness:
  "validateDisparity example_policy example_disparity example_Q example_size = None
   \<and> failure (insertDisparityImage example_policy WorldBase_hooks example_transform
        example_disparity example_Q example_size example_machine) = None
   \<and> final (insertDisparityImage example_policy WorldBase_hooks example_transform
        example_disparity example_Q example_size example_machine)
       = \<lparr> object = WorldBase_ctor,
           glog = [(ERROR, ''Calling unimplemented disparity insertion!'')] \<rparr>
   \<and> example_cloud \<noteq> []
   \<and> final (insertPointcloud WorldBase_hooks example_transform example_cloud example_machine)
       = \<lparr> object = WorldBase_ctor,
           glog = [(ERROR, ''Calling unimplemented pointcloud insertion!'')] \<rparr>"
proof -
  have c: "example_cloud \<noteq> []"
    by (simp add: example_cloud_def)
  have unset: "\<not> isWeighingFunctionSet (object example_machine)"
    by (simp add: isWeighingFunctionSet_def example_machine_def WorldBase_ctor_def)
  have m: "object example_machine = WorldBase_ctor" "glog example_machine = []"
    by (simp_all add: example_machine_def)
  show ?thesis
    using default_hooks_log_and_return
      [of example_transform _ example_machine _ _ _ example_policy example_disparity example_Q
        example_size example_cloud]
      example_valid c unset m
    by (simp add: Machine.equality)
qed

text \<open>
  C5. In the pipeline as the specification describes it, an insertion call
  whose input fails validation (an empty image, a mismatch of dimensions, an
  empty cloud) signals the failure, invokes no backend hook and returns the
  machine untouched.
\<close>

theorem invalid_input_aborts_before_hooks:
  fixes m :: "(WeighingFunction, 'z) WorldBase_scheme Machine"
  shows
  "(empty_Mat disparity
      \<or> \<not> dimensions_consistent pol (rows disparity) (cols disparity) Q_full full_image_size \<longrightarrow>
      insertDisparityImage pol backend sensor_to_world disparity Q_full full_image_size m
        = \<lparr> failure = Some (if empty_Mat disparity then EmptyInput else DimensionMismatch),
            hooks_invoked = [], final = m \<rparr>)
   \<and> (cloud_msg = [] \<longrightarrow>
      insertPointcloud backend sensor_to_world cloud_msg m
        = \<lparr> failure = Some EmptyInput, hooks_invoked = [], final = m \<rparr>)"
  by (simp add: insertDisparityImage_def insertPointcloud_def validateDisparity_def call_defs)


theorem invalid_input_aborts_before_hooks_witness:
  "empty_Mat empty_disparity
   \<and> insertDisparityImage example_policy WorldBase_hooks example_transform empty_disparity
        example_Q example_size example_machine
       = \<lparr> failure = Some EmptyInput, hooks_invoked = [], final = example_machine \<rparr>
   \<and> \<not> empty_Mat oversized_disparity
   \<and> \<not> dimensions_consistent example_policy (rows oversized_disparity) (cols oversized_disparity)
         example_Q example_size
   \<and> insertDisparityImage example_policy WorldBase_hooks example_transform oversized_disparity
        example_Q example_size example_machine
       = \<lparr> failure = Some DimensionMismatch, hooks_invoked = [], final = example_machine \<rparr>
   \<and> insertPointcloud WorldBase_hooks example_transform ([] :: unit PointCloud2) example_machine
       = \<lparr> failure = Some EmptyInput, hooks_invoked = [], final = example_machine \<rparr>"
proof -
  have e: "empty_Mat empty_disparity"
    by (simp add: empty_Mat_def empty_disparity_def)
  have o: "\<not> empty_Mat oversized_disparity"
    "\<not> dimensions_consistent example_policy (rows oversized_disparity) (cols oversized_disparity)
         example_Q example_size"
    by (simp_all add: empty_Mat_def oversized_disparity_def example_policy_def example_size_def)
  show ?thesis
    using invalid_input_aborts_before_hooks
      [of empty_disparity example_policy example_Q example_size WorldBase_hooks example_transform
        example_machine "[] :: unit PointCloud2"]
      invalid_input_aborts_before_hooks
      [of oversized_disparity example_policy example_Q example_size WorldBase_hooks
        example_transform example_machine "[] :: unit PointCloud2"]
      e o
    by simp
qed


section \<open>Ingestion\<close>

text \<open>
  C6. In disparity ingestion as the specification describes it, the output has
  the dimensions of the image, and every pixel whose disparity is \<open>\<le> 0\<close> or a
  sentinel, or whose homogeneous \<open>W\<close> is zero or within the bound of zero, is
  the invalid marker \<open>None\<close>. A pixel that yields a point has a positive
  disparity that is no sentinel and a \<open>W\<close> beyond the bound, and the point is
  the perspective division by that \<open>W\<close>.
\<close>

theorem invalid_pixels_marked_invalid:
  assumes "i < length (data disparity)"
  shows
  "rows (reprojectImageTo3D pol disparity Q) = rows disparity
   \<and> cols (reprojectImageTo3D pol disparity Q) = cols disparity
   \<and> length (data (reprojectImageTo3D pol disparity Q)) = length (data disparity)
   \<and> (data disparity ! i \<le> 0 \<or> is_sentinel pol (data disparity ! i)
        \<or> w4 (homogeneous Q (i mod cols disparity) (i div cols disparity) (data disparity ! i)) = 0
        \<or> \<bar>w4 (homogeneous Q (i mod cols disparity) (i div cols disparity) (data disparity ! i))\<bar>
             \<le> w_epsilon pol
      \<longrightarrow> data (reprojectImageTo3D pol disparity Q) ! i = None)
   \<and> (\<forall>p. data (reprojectImageTo3D pol disparity Q) ! i = Some p \<longrightarrow>
        0 < data disparity ! i \<and> \<not> is_sentinel pol (data disparity ! i)
        \<and> w4 (homogeneous Q (i mod cols disparity) (i div cols disparity) (data disparity ! i)) \<noteq> 0
        \<and> w_epsilon pol
             < \<bar>w4 (homogeneous Q (i mod cols disparity) (i div cols disparity) (data disparity ! i))\<bar>
        \<and> p = (let h = homogeneous Q (i mod cols disparity) (i div cols disparity) (data disparity ! i)
                in Vector3 (x4 h / w4 h) (y4 h / w4 h) (z4 h / w4 h)))"
proof -
  have dims: "rows (reprojectImageTo3D pol disparity Q) = rows disparity"
    "cols (reprojectImageTo3D pol disparity Q) = cols disparity"
    "length (data (reprojectImageTo3D pol disparity Q)) = length (data disparity)"
    by (simp_all add: reprojectImageTo3D_def)
  show ?thesis
    unfolding reprojectImageTo3D_nth [OF assms] dims
    by (auto simp add: reprojectPixel_def Let_def split: if_splits)
qed

theorem invalid_pixels_marked_invalid_witness:
  "(0::nat) < length (data example_disparity)
   \<and> data (reprojectImageTo3D example_policy example_disparity example_Q) ! 0
       = Some (Vector3 (- 1 / 50) 0 10)
   \<and> 0 < data example_disparity ! 0
   \<and> (1::nat) < length (data example_disparity)
   \<and> data example_disparity ! 1 \<le> 0
   \<and> data (reprojectImageTo3D example_policy example_disparity example_Q) ! 1 = None
   \<and> (2::nat) < length (data example_disparity)
   \<and> 0 < data example_disparity ! 2
   \<and> \<bar>w4 (homogeneous example_Q (2 mod cols example_disparity) (2 div cols example_disparity)
            (data example_disparity ! 2))\<bar> \<le> w_epsilon example_policy
   \<and> data (reprojectImageTo3D example_policy example_disparity example_Q) ! 2 = None"
proof -
  have i0: "(0::nat) < length (data example_disparity)"
    and i1: "(1::nat) < length (data example_disparity)"
    and i2: "(2::nat) < length (data example_disparity)"
    by (simp_all add: example_data)
  have p0: "data (reprojectImageTo3D example_policy example_disparity example_Q) ! 0
            = Some (Vector3 (- 1 / 50) 0 10)"
    by (simp add: reprojectImageTo3D_nth [OF i0] reprojectPixel_def example_homogeneous
        example_data example_policy_def)
  have d1: "data example_disparity ! 1 \<le> 0"
    by (simp add: example_data)
  have d2: "0 < data example_disparity ! 2"
    "\<bar>w4 (homogeneous example_Q (2 mod cols example_disparity) (2 div cols example_disparity)
            (data example_disparity ! 2))\<bar> \<le> w_epsilon example_policy"
    by (simp_all add: example_data example_homogeneous example_policy_def)
  from invalid_pixels_marked_invalid [OF i0, of example_policy example_Q] p0
  have q0: "0 < data example_disparity ! 0" by simp
  from invalid_pixels_marked_invalid [OF i1, of example_policy example_Q] d1
  have q1: "data (reprojectImageTo3D example_policy example_disparity example_Q) ! 1 = None"
    by blast
  from invalid_pixels_marked_invalid [OF i2, of example_policy example_Q] d2
  have q2: "data (reprojectImageTo3D example_policy example_disparity example_Q) ! 2 = None"
    by blast
  show ?thesis
    using i0 i1 i2 p0 q0 d1 d2 q1 q2 by blast
qed

text \<open>
  C7. In point-cloud ingestion as the specification describes it, the valid
  output points and the excluded points together are as many as the input
  points; the valid points have finite coordinates and the excluded ones do
  not; and the weights computed for the valid points are as many as they are,
  the weight at each index being that of the point at that index.
\<close>

theorem pointcloud_ingestion_conserves_cardinality:
  "length (ingestPointcloud cloud_msg) + length (excludedPoints cloud_msg) = length cloud_msg
   \<and> length (computeWeights_pointcloud strategy (ingestPointcloud cloud_msg))
       = length (ingestPointcloud cloud_msg)
   \<and> computeWeights_pointcloud strategy (ingestPointcloud cloud_msg)
       = map (computeWeightForPoint strategy) (ingestPointcloud cloud_msg)
   \<and> (\<forall>p \<in> set (ingestPointcloud cloud_msg). finite_point p)
   \<and> (\<forall>p \<in> set (excludedPoints cloud_msg). \<not> finite_point p)"
proof -
  have "length (ingestPointcloud cloud_msg) + length (excludedPoints cloud_msg)
        = length (map xyz cloud_msg)"
    unfolding ingestPointcloud_def excludedPoints_def by (rule sum_length_filter_compl)
  then show ?thesis
    by (simp add: computeWeights_pointcloud_def) (simp add: ingestPointcloud_def excludedPoints_def)
qed

theorem pointcloud_ingestion_conserves_cardinality_witness:
  "ingestPointcloud example_cloud = [Vector3 float_one float_one float_one]
   \<and> excludedPoints example_cloud = [Vector3 float_one float_nan float_one]
   \<and> finite_point (Vector3 float_one float_one float_one)
   \<and> \<not> finite_point (Vector3 float_one float_nan float_one)
   \<and> length (ingestPointcloud example_cloud) + length (excludedPoints example_cloud) = 2
   \<and> length (computeWeights_pointcloud example_strategy (ingestPointcloud example_cloud)) = 1"
proof -
  have valid: "ingestPointcloud example_cloud = [Vector3 float_one float_one float_one]"
    by (simp add: ingestPointcloud_def example_cloud_def finite_point_def float_one_finite
        float_nan_not_finite)
  have dropped: "excludedPoints example_cloud = [Vector3 float_one float_nan float_one]"
    by (simp add: excludedPoints_def example_cloud_def finite_point_def float_one_finite
        float_nan_not_finite)
  have n: "length example_cloud = 2"
    by (simp add: example_cloud_def)
  show ?thesis
    using pointcloud_ingestion_conserves_cardinality [of example_cloud example_strategy]
      valid dropped n
    by simp
qed

section \<open>The weighing function and the map extent\<close>

text \<open>
  C8. \<open>isWeighingFunctionSet\<close> is true exactly when the stored pointer is not
  null: false on a freshly constructed object, true after a strategy has been
  set, false again after the null pointer has been set.
\<close>

theorem weighing_function_set_iff:
  "isWeighingFunctionSet w = (weighing_function_ptr w \<noteq> None)
   \<and> \<not> isWeighingFunctionSet WorldBase_ctor
   \<and> isWeighingFunctionSet (setWeighingFunction w (Some strategy))
   \<and> \<not> isWeighingFunctionSet (setWeighingFunction (setWeighingFunction w (Some strategy)) None)"
  by (simp add: isWeighingFunctionSet_def setWeighingFunction_def WorldBase_ctor_def)

text \<open>
  C9. The default \<open>getMapCenter\<close> returns the origin, and the default
  \<open>getMapSize\<close> returns in each axis \<^verbatim>\<open>std::numeric_limits<double>::max()\<close>:
  a finite binary64 value (neither an infinity nor a NaN), equal to
  \<open>(2 ^ 53 - 1) * 2 ^ 971\<close>, that no finite binary64 value exceeds.
\<close>

theorem default_map_center_and_size:
  "getMapCenter w = Vector3 double_zero double_zero double_zero
   \<and> to_real double_zero = 0
   \<and> getMapSize w =
       Vector3 numeric_limits_double_max numeric_limits_double_max numeric_limits_double_max
   \<and> isfinite numeric_limits_double_max
   \<and> \<not> isinf numeric_limits_double_max
   \<and> \<not> isnan numeric_limits_double_max
   \<and> to_real numeric_limits_double_max = (2 ^ 53 - 1) * 2 ^ 971
   \<and> (\<forall>d :: double. isfinite d \<longrightarrow> to_real d \<le> to_real numeric_limits_double_max)"
proof -
  have "to_real double_zero = 0"
    by (simp add: to_real_def significand_units_def double_zero_def)
  moreover have "isfinite numeric_limits_double_max"
    by (simp add: isfinite_def numeric_limits_double_max_def)
  moreover have "\<not> isinf numeric_limits_double_max" "\<not> isnan numeric_limits_double_max"
    by (simp_all add: isinf_def isnan_def numeric_limits_double_max_def)
  ultimately show ?thesis
    using to_real_max finite_le_max by (simp add: getMapCenter_def getMapSize_def)
qed

theorem default_map_center_and_size_witness:
  "isfinite double_zero \<and> to_real double_zero \<le> to_real numeric_limits_double_max
   \<and> vx (getMapSize (WorldBase_ctor :: unit WorldBase)) = numeric_limits_double_max"
proof -
  have fin: "isfinite double_zero"
    by (simp add: isfinite_def double_zero_def)
  show ?thesis
    using fin default_map_center_and_size [of "WorldBase_ctor :: unit WorldBase"] by simp
qed

section \<open>Calibration\<close>

text \<open>
  C10. In the calibration as the specification describes it, a baseline that
  is zero or within the bound of zero makes \<open>generateQ\<close> and \<open>getQForCameras\<close>
  return the precondition violation and no matrix; a matrix is returned only
  for a baseline that is not zero and beyond the bound.
\<close>

theorem degenerate_baseline_is_rejected:
  "(Tx = 0 \<or> \<bar>Tx\<bar> \<le> baseline_epsilon pol \<longrightarrow>
      generateQ pol Tx left_cx left_cy left_fx left_fy right_cx right_cy right_fx right_fy
        = Inl DegenerateBaseline)
   \<and> (norm3 (getPosition T_C1_C0) = 0 \<or> norm3 (getPosition T_C1_C0) \<le> baseline_epsilon pol \<longrightarrow>
      getQForCameras pol T_C1_C0 left_cam_matrix right_cam_matrix full_image_size
        = Inl DegenerateBaseline)
   \<and> (\<forall>Q. generateQ pol Tx left_cx left_cy left_fx left_fy right_cx right_cy right_fx right_fy
            = Inr Q \<longrightarrow> Tx \<noteq> 0 \<and> baseline_epsilon pol < \<bar>Tx\<bar>)"
proof -
  have "0 \<le> norm3 (getPosition T_C1_C0)"
    unfolding norm3_def by (rule real_sqrt_ge_zero) (simp add: add_nonneg_nonneg)
  then show ?thesis
    by (auto simp add: generateQ_def getQForCameras_def degenerate_baseline_def split: if_splits)
qed


theorem degenerate_baseline_is_rejected_witness:
  "generateQ example_calibration 0 1 0 500 500 1 0 500 500 = Inl DegenerateBaseline
   \<and> \<bar>1 / 2000 :: real\<bar> \<le> baseline_epsilon example_calibration
   \<and> generateQ example_calibration (1 / 2000) 1 0 500 500 1 0 500 500 = Inl DegenerateBaseline
   \<and> norm3 (getPosition example_transform) = 0
   \<and> getQForCameras example_calibration example_transform example_camera example_camera
        example_size = Inl DegenerateBaseline
   \<and> generateQ example_calibration (1 / 10) 1 0 500 500 1 0 500 500 = Inr example_Q
   \<and> baseline_epsilon example_calibration < \<bar>1 / 10 :: real\<bar>"
proof -
  have near: "\<bar>1 / 2000 :: real\<bar> \<le> baseline_epsilon example_calibration"
    by (simp add: example_calibration_def)
  have still: "norm3 (getPosition example_transform) = 0"
    by (simp add: norm3_def example_transform_def)
  have ok: "generateQ example_calibration (1 / 10) 1 0 500 500 1 0 500 500 = Inr example_Q"
    by (simp add: generateQ_def degenerate_baseline_def example_calibration_def example_Q_def)
  from degenerate_baseline_is_rejected
    [of 0 example_calibration 1 0 500 500 1 0 500 500 example_transform example_camera
      example_camera example_size] still
  have z: "generateQ example_calibration 0 1 0 500 500 1 0 500 500 = Inl DegenerateBaseline"
    and g: "getQForCameras example_calibration example_transform example_camera example_camera
        example_size = Inl DegenerateBaseline"
    by simp_all
  from degenerate_baseline_is_rejected
    [of "1 / 2000" example_calibration 1 0 500 500 1 0 500 500 example_transform example_camera
      example_camera example_size] near
  have s: "generateQ example_calibration (1 / 2000) 1 0 500 500 1 0 500 500
           = Inl DegenerateBaseline"
    by simp
  from degenerate_baseline_is_rejected
    [of "1 / 10" example_calibration 1 0 500 500 1 0 500 500 example_transform example_camera
      example_camera example_size] ok
  have b: "baseline_epsilon example_calibration < \<bar>1 / 10 :: real\<bar>"
    by simp
  show ?thesis
    using near still ok z g s b by blast
qed

end
